theory Spec2Isabelle
  imports Main "HOL-Library.Sublist"
begin

section \<open>JavaScript values the component computes with\<close>

text \<open>
  A value of type \<^verbatim>\<open>string | null | undefined\<close> is a \<^typ>\<open>string option\<close>;
  \<^verbatim>\<open>null\<close> and \<^verbatim>\<open>undefined\<close> are both \<^term>\<open>None\<close> (the component never tells them apart).
  In a condition, \<^verbatim>\<open>null\<close>, \<^verbatim>\<open>undefined\<close> and the empty string are falsy.
\<close>

definition truthy :: "string option \<Rightarrow> bool" where
  "truthy v = (case v of None \<Rightarrow> False | Some s \<Rightarrow> s \<noteq> [])"

text \<open>\<^verbatim>\<open>a || b\<close> with a string on the right, and with a possibly missing value on the right.\<close>

definition or_else :: "string option \<Rightarrow> string \<Rightarrow> string" where
  "or_else a b = (case a of None \<Rightarrow> b | Some s \<Rightarrow> if s = [] then b else s)"

definition or_opt :: "string option \<Rightarrow> string option \<Rightarrow> string option" where
  "or_opt a b = (if truthy a then a else b)"

text \<open>\<^verbatim>\<open>s.includes(sub)\<close>: \<^verbatim>\<open>sub\<close> occurs in \<^verbatim>\<open>s\<close> as a contiguous run of code units.\<close>

fun js_includes :: "string \<Rightarrow> string \<Rightarrow> bool" where
  "js_includes [] sub = (sub = [])"
| "js_includes (c # cs) sub = (prefix sub (c # cs) \<or> js_includes cs sub)"

text \<open>\<^verbatim>\<open>s.split(sep)\<close> for a one-character separator, and \<^verbatim>\<open>xs[i]\<close>, which is
  \<^verbatim>\<open>undefined\<close> out of range.\<close>

fun js_split :: "char \<Rightarrow> string \<Rightarrow> string list" where
  "js_split sep [] = [[]]"
| "js_split sep (c # cs) =
     (if c = sep then [] # js_split sep cs
      else (case js_split sep cs of [] \<Rightarrow> [[c]] | w # ws \<Rightarrow> (c # w) # ws))"

definition js_index :: "'a list \<Rightarrow> nat \<Rightarrow> 'a option" where
  "js_index xs i = (if i < length xs then Some (xs ! i) else None)"

text \<open>
  A caught value \<^verbatim>\<open>err: any\<close>, as far as the catch block looks at it: the result of
  \<^verbatim>\<open>err.toString()\<close> and the property \<^verbatim>\<open>err.message\<close>, which may be missing.
  (A thrown \<^verbatim>\<open>null\<close> or \<^verbatim>\<open>undefined\<close>, on which \<^verbatim>\<open>toString\<close> itself throws, is not
  modelled.)
  \<^verbatim>\<open>new Error(msg)\<close> has the message \<^verbatim>\<open>msg\<close> and the string form \<^verbatim>\<open>"Error: " + msg\<close>
  (just \<^verbatim>\<open>"Error"\<close> for an empty message).
\<close>

datatype js_error = Thrown (toString: string) (message: "string option")

definition new_Error :: "string \<Rightarrow> js_error" where
  "new_Error msg = Thrown (if msg = [] then ''Error'' else ''Error: '' @ msg) (Some msg)"

section \<open>The generation service's interface\<close>

text \<open>
  The parts of a request and of a response (\<^verbatim>\<open>@google/genai\<close>): a part carries text,
  inline data, or neither. \<^verbatim>\<open>response.text\<close> is read as a property of the response.
\<close>

datatype blob = Blob (mimeType: "string option") (data: "string option")

datatype part = Part (part_text: "string option") (inlineData: "blob option")

datatype content = Content (parts: "part list option")

datatype candidate = Candidate (content: "content option")

datatype response = Response (candidates: "candidate list option") (response_text: "string option")

datatype request = Request (req_apiKey: string) (req_model: string) (req_parts: "part list")

text \<open>
  What \<^verbatim>\<open>await ai.models.generateContent(...)\<close> does when it settles: it returns a
  response or throws. Anything thrown in the try block before the call returns (by the
  client's constructor, say) is a \<open>Threw\<close> as well: the catch block sees it the same way.
\<close>

datatype api_outcome = Returned response | Threw js_error

section \<open>Session state\<close>

datatype PaperType = Lined | Graph | Plain

fun paperType_string :: "PaperType \<Rightarrow> string" where
  "paperType_string Lined = ''lined''"
| "paperType_string Graph = ''graph''"
| "paperType_string Plain = ''plain''"

record session =
  selectedImage :: "string option"
  generatedImage :: "string option"
  isGenerating :: bool
  error :: "string option"
  customText :: string
  paperType :: PaperType
  lastPrompt :: string
  apiKey :: string

text \<open>
  The repository holds two revisions of the component. They differ in where the prompt is
  built and kept (\<^verbatim>\<open>lastPrompt\<close> exists in part_001 only; part_000 leaves the field of
  the model alone), in the catch block of \<^verbatim>\<open>handleGenerate\<close>, and in what the result
  panel renders.
\<close>

datatype revision = Part_000 | Part_001

type_synonym storage = "string \<rightharpoonup> string"

definition storage_key :: string where
  "storage_key = ''gemini_api_key''"

text \<open>\<^verbatim>\<open>localStorage.getItem("gemini_api_key") || process.env.API_KEY || ""\<close>\<close>

definition initial_apiKey :: "storage \<Rightarrow> string option \<Rightarrow> string" where
  "initial_apiKey ls env = or_else (or_opt (ls storage_key) env) ''''"

definition initial_session :: "storage \<Rightarrow> string option \<Rightarrow> session" where
  "initial_session ls env =
     \<lparr> selectedImage = None, generatedImage = None, isGenerating = False, error = None,
       customText = ''FESTIVAL, LOVE, FUN'', paperType = Lined, lastPrompt = '''',
       apiKey = initial_apiKey ls env \<rparr>"

section \<open>The messages shown to the user\<close>

definition text_error :: string where
  "text_error = ''The AI returned text instead of an image. It might have misunderstood the prompt or triggered a safety filter.''"

definition no_image_error :: string where
  "no_image_error = ''No image was generated. Please try again with a different photo.''"

definition auth_error :: string where
  "auth_error = ''Authentication failed. Please check your API key.''"

definition generic_error :: string where
  "generic_error = ''Generation failed. This is often because your API key is not linked to a billing account (required for image generation). Please check Option 1 below or use Option 2.''"

definition fallback_error_000 :: string where
  "fallback_error_000 = ''Failed to generate sketch. Please try a different photo.''"

definition missing_key_error :: string where
  "missing_key_error = ''Please enter your Gemini API Key first.''"

section \<open>Handlers\<close>

definition handleApiKeyChange :: "string \<Rightarrow> session \<times> storage \<Rightarrow> session \<times> storage" where
  "handleApiKeyChange newKey = (\<lambda>(s, ls).
     (let s1 = s\<lparr>apiKey := newKey\<rparr>;
          ls1 = ls(storage_key \<mapsto> newKey)
      in (case error s of
            None \<Rightarrow> (s1, ls1)
          | Some e \<Rightarrow>
              if e \<noteq> [] \<and> (js_includes e ''API key'' \<or> js_includes e ''Authentication'')
              then (s1\<lparr>error := None\<rparr>, ls1)
              else (s1, ls1))))"

text \<open>
  \<^verbatim>\<open>handleImageUpload\<close> starts a \<^verbatim>\<open>FileReader\<close> when the event carries a file and
  changes nothing by itself; the state changes in \<^verbatim>\<open>reader.onloadend\<close>, which is given
  \<^verbatim>\<open>reader.result\<close> (the data URL, or \<^verbatim>\<open>null\<close> when the read failed). A file is
  modelled by what reading it will give.
\<close>

datatype upload = File (read_result: "string option")

definition onloadend :: "string option \<Rightarrow> session \<Rightarrow> session" where
  "onloadend result s = s\<lparr>selectedImage := result, generatedImage := None, error := None\<rparr>"

text \<open>The handler returns the callback it has registered, if any: \<^verbatim>\<open>event.target.files?.[0]\<close>
  may be missing, and then nothing is read.\<close>

definition handleImageUpload :: "upload option \<Rightarrow> (session \<Rightarrow> session) option" where
  "handleImageUpload f =
     (case f of None \<Rightarrow> None | Some fl \<Rightarrow> Some (onloadend (read_result fl)))"

definition nl :: string where
  "nl = [CHR 0x0A]"

definition build_prompt :: "PaperType \<Rightarrow> string \<Rightarrow> string" where
  "build_prompt pt txt =
     ''Convert this photo into a creative, hand-drawn colored pencil sketch on ''
       @ paperType_string pt @ '' notebook paper. '' @ nl
     @ ''      '' @ nl
     @ ''      Style details:'' @ nl
     @ ''      - The background MUST look like a real sheet of '' @ paperType_string pt
       @ '' paper.'' @ nl
     @ ''      - The subjects should be drawn in a loose, artistic colored pencil or ballpoint pen style.'' @ nl
     @ ''      - Add a slight glowing yellow or neon outline around the main subjects.'' @ nl
     @ ''      - Add playful, hand-drawn red or blue ink speech bubbles and doodles around the subjects.'' @ nl
     @ ''      - Inside the speech bubbles/doodles, include these specific words: '' @ [CHR 0x22]
       @ txt @ [CHR 0x22] @ ''.'' @ nl
     @ ''      - Add decorative stars, hearts, and squiggles in the empty spaces.'' @ nl
     @ ''      - The overall vibe should be fun, energetic, and scrapbook-style.''"

text \<open>\<^verbatim>\<open>selectedImage.split(',')[1]\<close> and \<^verbatim>\<open>selectedImage.split(';')[0].split(':')[1]\<close>\<close>

definition base64Data :: "string \<Rightarrow> string option" where
  "base64Data img = js_index (js_split (CHR '','') img) 1"

definition mimeType_of :: "string \<Rightarrow> string option" where
  "mimeType_of img =
     (case js_split (CHR '';'') img of
        [] \<Rightarrow> None
      | h # _ \<Rightarrow> js_index (js_split (CHR '':'') h) 1)"

definition make_request :: "string \<Rightarrow> string \<Rightarrow> string \<Rightarrow> request" where
  "make_request key prompt img =
     Request key ''gemini-2.5-flash-image''
       [Part (Some prompt) None, Part None (Some (Blob (mimeType_of img) (base64Data img)))]"

text \<open>
  \<^verbatim>\<open>handleGenerate\<close> up to its \<^verbatim>\<open>await\<close>: the two guards, the three resets, and the
  request handed to the service (none when a guard returns).
\<close>

definition handleGenerate_start :: "revision \<Rightarrow> session \<Rightarrow> session \<times> request option" where
  "handleGenerate_start rv s =
     (case selectedImage s of
        None \<Rightarrow> (s, None)
      | Some img \<Rightarrow>
          if img = [] then (s, None)
          else if apiKey s = []
          then (s\<lparr>error := Some missing_key_error\<rparr>, None)
          else
            (let s1 = s\<lparr>isGenerating := True, error := None, generatedImage := None\<rparr>;
                 prompt = build_prompt (paperType s) (customText s);
                 s2 = (case rv of Part_000 \<Rightarrow> s1 | Part_001 \<Rightarrow> s1\<lparr>lastPrompt := prompt\<rparr>)
             in (s2, Some (make_request (apiKey s) prompt img))))"

text \<open>\<^verbatim>\<open>response.candidates?.[0]?.content?.parts\<close>\<close>

definition response_parts :: "response \<Rightarrow> part list option" where
  "response_parts r =
     (case candidates r of
        None \<Rightarrow> None
      | Some cs \<Rightarrow>
          (case cs of
             [] \<Rightarrow> None
           | c # _ \<Rightarrow> (case content c of None \<Rightarrow> None | Some ct \<Rightarrow> parts ct)))"

text \<open>The test of the loop, \<^verbatim>\<open>part.inlineData && part.inlineData.data\<close>, and the URL it builds.\<close>

definition has_image :: "part \<Rightarrow> bool" where
  "has_image p = (case inlineData p of None \<Rightarrow> False | Some b \<Rightarrow> truthy (data b))"

definition data_url :: "part \<Rightarrow> string" where
  "data_url p =
     (case inlineData p of
        None \<Rightarrow> []
      | Some b \<Rightarrow> ''data:'' @ or_else (mimeType b) ''image/png'' @ '';base64,''
                  @ (case data b of None \<Rightarrow> [] | Some d \<Rightarrow> d))"

text \<open>The loop over the parts: the URL given to \<^verbatim>\<open>setGeneratedImage\<close> before the
  \<^verbatim>\<open>break\<close>, or nothing when \<^verbatim>\<open>foundImage\<close> stays false.\<close>

fun find_image :: "part list \<Rightarrow> string option" where
  "find_image [] = None"
| "find_image (p # ps) = (if has_image p then Some (data_url p) else find_image ps)"

text \<open>The rest of the try block, once the response is there: the URL set, or the error thrown.\<close>

definition after_response :: "response \<Rightarrow> js_error + string" where
  "after_response r =
     (case (case response_parts r of None \<Rightarrow> None | Some ps \<Rightarrow> find_image ps) of
        Some url \<Rightarrow> Inr url
      | None \<Rightarrow>
          if truthy (response_text r) then Inl (new_Error text_error)
          else Inl (new_Error no_image_error))"

text \<open>The catch block: the message given to \<^verbatim>\<open>setError\<close>.\<close>

fun catch_message :: "revision \<Rightarrow> js_error \<Rightarrow> string" where
  "catch_message Part_001 err =
     (let errorString = toString err;
          errorMessage = or_else (message err) ''''
      in if js_includes errorString ''401'' \<or> js_includes errorString ''403''
            \<or> js_includes errorString ''API key'' \<or> js_includes errorMessage ''API key''
         then auth_error
         else if js_includes errorMessage ''safety filter''
                 \<or> js_includes errorMessage ''text instead of an image''
                 \<or> js_includes errorMessage ''No image was generated''
         then errorMessage
         else generic_error)"
| "catch_message Part_000 err =
     (if js_includes (toString err) ''401'' \<or> js_includes (toString err) ''403''
         \<or> js_includes (toString err) ''API key''
      then auth_error
      else or_else (message err) fallback_error_000)"

text \<open>
  \<^verbatim>\<open>handleGenerate\<close> from the moment the call settles: the try block's tail, the catch
  block, and \<^verbatim>\<open>finally\<close>. The setters write absolute values, so this part reads
  nothing of the state it updates.
\<close>

definition try_block :: "api_outcome \<Rightarrow> js_error + string" where
  "try_block outcome = (case outcome of Threw e \<Rightarrow> Inl e | Returned r \<Rightarrow> after_response r)"

definition handleGenerate_settle :: "revision \<Rightarrow> api_outcome \<Rightarrow> session \<Rightarrow> session" where
  "handleGenerate_settle rv outcome s =
     (let s1 = (case try_block outcome of
                  Inr url \<Rightarrow> s\<lparr>generatedImage := Some url\<rparr>
                | Inl err \<Rightarrow> s\<lparr>error := Some (catch_message rv err)\<rparr>)
      in s1\<lparr>isGenerating := False\<rparr>)"

text \<open>One whole run of \<^verbatim>\<open>handleGenerate\<close> against a service \<open>api\<close>, with no other
  event in between.\<close>

definition handleGenerate :: "revision \<Rightarrow> (request \<Rightarrow> api_outcome) \<Rightarrow> session \<Rightarrow> session" where
  "handleGenerate rv api s =
     (case handleGenerate_start rv s of
        (s1, None) \<Rightarrow> s1
      | (s1, Some req) \<Rightarrow> handleGenerate_settle rv (api req) s1)"

section \<open>The page as a transition system\<close>

text \<open>
  The browser runs one handler or callback at a time. Besides the session, the page has the
  browser-local store, the \<^verbatim>\<open>FileReader\<close>s whose \<^verbatim>\<open>onloadend\<close> is still to come, and
  the \<^verbatim>\<open>generateContent\<close> calls that have not settled.
\<close>

record app =
  ui :: session
  localStorage :: storage
  reading :: "upload list"
  inflight :: "request list"

definition boot :: "storage \<Rightarrow> string option \<Rightarrow> app" where
  "boot ls env = \<lparr> ui = initial_session ls env, localStorage = ls, reading = [], inflight = [] \<rparr>"

text \<open>
  What can happen: input in the key field, a change of the file input, the end of a read,
  a paper button, input in the caption field, a click on the generate button, a call that
  settles, and a click on the close button of the result. Sharing, downloading and copying
  the prompt set nothing of the state and are left out. A chosen file joins the reads under
  way; the callback that \<^verbatim>\<open>handleImageUpload\<close> registers for it runs when its read ends.
  Reads and calls may end in any order.
\<close>

datatype event =
    KeyInput string
  | FileInput "upload option"
  | LoadEnd nat
  | PaperClick PaperType
  | TextInput string
  | GenerateClick
  | Settled nat api_outcome
  | CloseClick

definition remove_nth :: "nat \<Rightarrow> 'a list \<Rightarrow> 'a list" where
  "remove_nth i xs = take i xs @ drop (Suc i) xs"

text \<open>\<^verbatim>\<open>disabled={!selectedImage || isGenerating}\<close> on the generate button.\<close>

definition generate_disabled :: "session \<Rightarrow> bool" where
  "generate_disabled s = (\<not> truthy (selectedImage s) \<or> isGenerating s)"

text \<open>The close button is in the result panel: rendered when \<^verbatim>\<open>generatedImage\<close> is truthy,
  and in part_001 only when \<^verbatim>\<open>error\<close> is falsy, since the error panel comes first there.\<close>

fun close_rendered :: "revision \<Rightarrow> session \<Rightarrow> bool" where
  "close_rendered Part_000 s = truthy (generatedImage s)"
| "close_rendered Part_001 s = (\<not> truthy (error s) \<and> truthy (generatedImage s))"

text \<open>One event; \<^term>\<open>None\<close> when it cannot happen in this state.\<close>

fun fire :: "revision \<Rightarrow> event \<Rightarrow> app \<Rightarrow> app option" where
  "fire rv (KeyInput newKey) a =
     (case handleApiKeyChange newKey (ui a, localStorage a) of
        (s, ls) \<Rightarrow> Some (a\<lparr>ui := s, localStorage := ls\<rparr>))"
| "fire rv (FileInput f) a =
     (case f of None \<Rightarrow> Some a | Some fl \<Rightarrow> Some (a\<lparr>reading := reading a @ [fl]\<rparr>))"
| "fire rv (LoadEnd i) a =
     (if i < length (reading a)
      then (case handleImageUpload (Some (reading a ! i)) of
              None \<Rightarrow> None
            | Some k \<Rightarrow> Some (a\<lparr>ui := k (ui a), reading := remove_nth i (reading a)\<rparr>))
      else None)"
| "fire rv (PaperClick pt) a = Some (a\<lparr>ui := (ui a)\<lparr>paperType := pt\<rparr>\<rparr>)"
| "fire rv (TextInput txt) a = Some (a\<lparr>ui := (ui a)\<lparr>customText := txt\<rparr>\<rparr>)"
| "fire rv GenerateClick a =
     (if generate_disabled (ui a) then None
      else (case handleGenerate_start rv (ui a) of
              (s, None) \<Rightarrow> Some (a\<lparr>ui := s\<rparr>)
            | (s, Some req) \<Rightarrow> Some (a\<lparr>ui := s, inflight := inflight a @ [req]\<rparr>)))"
| "fire rv (Settled i outcome) a =
     (if i < length (inflight a)
      then Some (a\<lparr>ui := handleGenerate_settle rv outcome (ui a),
                  inflight := remove_nth i (inflight a)\<rparr>)
      else None)"
| "fire rv CloseClick a =
     (if close_rendered rv (ui a) then Some (a\<lparr>ui := (ui a)\<lparr>generatedImage := None\<rparr>\<rparr>)
      else None)"

fun run :: "revision \<Rightarrow> event list \<Rightarrow> app \<Rightarrow> app option" where
  "run rv [] a = Some a"
| "run rv (e # es) a = (case fire rv e a of None \<Rightarrow> None | Some a' \<Rightarrow> run rv es a')"

text \<open>
  What holds of the page between events: the busy flag is set exactly while a call is
  outstanding, at most one call is outstanding, and while it is, neither an output image
  nor an error is shown.
\<close>

definition busy_inv :: "app \<Rightarrow> bool" where
  "busy_inv a =
     ((isGenerating (ui a) \<longleftrightarrow> inflight a \<noteq> []) \<and> length (inflight a) \<le> 1
      \<and> (inflight a = [] \<or> (generatedImage (ui a) = None \<and> error (ui a) = None)))"

text \<open>
  Loading the page again from the store of a state gives back the credential of that state,
  or what \<^verbatim>\<open>|| process.env.API_KEY || ""\<close> makes of an empty one.
\<close>

definition reload_inv :: "string option \<Rightarrow> app \<Rightarrow> bool" where
  "reload_inv env a =
     (initial_apiKey (localStorage a) env = or_else (Some (apiKey (ui a))) (or_else env []))"

section \<open>Sample inputs\<close>

definition sample_image :: string where
  "sample_image = ''data:image/png;base64,AAAA''"

definition sample_session :: session where
  "sample_session =
     \<lparr> selectedImage = Some sample_image, generatedImage = None, isGenerating = False,
       error = None, customText = ''FESTIVAL, LOVE, FUN'', paperType = Lined,
       lastPrompt = '''', apiKey = ''AIza-key'' \<rparr>"

definition sample_parts :: "part list" where
  "sample_parts =
     [Part (Some ''Here is your sketch'') None,
      Part None (Some (Blob (Some ''image/jpeg'') (Some ''QUJD''))),
      Part None (Some (Blob None (Some ''REVG'')))]"

definition image_response :: response where
  "image_response =
     Response (Some [Candidate (Some (Content (Some sample_parts)))])
       (Some ''Here is your sketch'')"

definition text_response :: response where
  "text_response =
     Response (Some [Candidate (Some (Content (Some [Part (Some ''I cannot draw that'') None])))])
       (Some ''I cannot draw that'')"

definition empty_response :: response where
  "empty_response = Response None None"

text \<open>A service that settles every call the same way.\<close>

fun service :: "api_outcome \<Rightarrow> request \<Rightarrow> api_outcome" where
  "service outcome req = outcome"

definition empty_store :: storage where
  "empty_store = Map.empty"

definition sample_request :: request where
  "sample_request =
     make_request ''AIza-key'' (build_prompt Lined ''FESTIVAL, LOVE, FUN'') sample_image"

definition busy_session :: session where
  "busy_session =
     sample_session\<lparr>isGenerating := True,
       lastPrompt := build_prompt Lined ''FESTIVAL, LOVE, FUN''\<rparr>"

definition sample_events :: "event list" where
  "sample_events =
     [FileInput (Some (File (Some sample_image))), LoadEnd 0, KeyInput ''AIza-key'',
      GenerateClick]"

definition busy_app :: app where
  "busy_app =
     \<lparr> ui = busy_session, localStorage = empty_store(storage_key \<mapsto> ''AIza-key''),
       reading = [], inflight = [sample_request] \<rparr>"

definition fetch_failure :: js_error where
  "fetch_failure = Thrown ''TypeError: Failed to fetch'' (Some ''Failed to fetch'')"

definition keyless_session :: session where
  "keyless_session =
     sample_session\<lparr>generatedImage := Some ''data:image/png;base64,QUJD'', apiKey := []\<rparr>"

definition keyless_app :: app where
  "keyless_app =
     \<lparr> ui = keyless_session, localStorage = empty_store(storage_key \<mapsto> []),
       reading = [], inflight = [] \<rparr>"

text \<open>An image is generated, the key field is emptied, and the button is clicked again.\<close>

definition stale_events :: "event list" where
  "stale_events =
     sample_events @ [Settled 0 (Returned image_response), KeyInput [], GenerateClick]"

definition stale_app :: app where
  "stale_app =
     \<lparr> ui = busy_session\<lparr>generatedImage := Some ''data:image/jpeg;base64,QUJD'',
              isGenerating := False, apiKey := [], error := Some missing_key_error\<rparr>,
       localStorage = empty_store(storage_key \<mapsto> []), reading = [], inflight = [] \<rparr>"

text \<open>A response with two candidates: only the first is read.\<close>

definition two_candidate_response :: response where
  "two_candidate_response =
     Response (Some [Candidate (Some (Content (Some sample_parts))),
                     Candidate (Some (Content (Some
                       [Part None (Some (Blob (Some ''image/gif'') (Some ''R0lG'')))])))])
       (Some ''Here is your sketch'')"

section \<open>Facts about the handlers\<close>

lemma start_no_image:
  "\<not> truthy (selectedImage s) \<Longrightarrow> handleGenerate_start rv s = (s, None)"
  by (simp add: handleGenerate_start_def truthy_def split: option.splits)

lemma start_no_key:
  "truthy (selectedImage s) \<Longrightarrow> apiKey s = [] \<Longrightarrow>
     handleGenerate_start rv s = (s\<lparr>error := Some missing_key_error\<rparr>, None)"
  by (simp add: handleGenerate_start_def truthy_def split: option.splits)

lemma start_request:
  assumes "handleGenerate_start rv s = (s1, Some req)"
  shows "truthy (selectedImage s) \<and> apiKey s \<noteq> [] \<and> isGenerating s1
         \<and> error s1 = None \<and> generatedImage s1 = None"
  using assms
  by (cases rv)
     (auto simp: handleGenerate_start_def truthy_def Let_def split: option.splits if_splits)

lemma settle_success:
  "try_block outcome = Inr url \<Longrightarrow>
     handleGenerate_settle rv outcome s = s\<lparr>generatedImage := Some url, isGenerating := False\<rparr>"
  by (simp add: handleGenerate_settle_def)

lemma settle_failure:
  "try_block outcome = Inl e \<Longrightarrow>
     handleGenerate_settle rv outcome s
       = s\<lparr>error := Some (catch_message rv e), isGenerating := False\<rparr>"
  by (simp add: handleGenerate_settle_def)

lemma settle_not_busy: "\<not> isGenerating (handleGenerate_settle rv outcome s)"
  by (simp add: handleGenerate_settle_def Let_def split: sum.splits)

lemma js_includes_sublist: "js_includes s sub \<longleftrightarrow> sublist sub s"
  by (induction s) (auto simp: sublist_Cons_right)

lemma catch_message_nonempty: "catch_message rv e \<noteq> []"
proof (cases rv)
  case Part_000
  then show ?thesis
    by (simp add: auth_error_def or_else_def fallback_error_000_def split: option.splits)
next
  case Part_001
  have "js_includes m sub \<Longrightarrow> sub \<noteq> [] \<Longrightarrow> m \<noteq> []" for m sub
    by (cases m) auto
  then show ?thesis using Part_001
    by (auto simp: Let_def auth_error_def generic_error_def)
qed

lemma find_image_find: "find_image ps = map_option data_url (find has_image ps)"
  by (induction ps) auto

lemma after_response_image:
  "response_parts r = Some ps \<Longrightarrow> find has_image ps = Some p \<Longrightarrow>
     after_response r = Inr (data_url p)"
  by (simp add: after_response_def find_image_find)

lemma after_response_no_image:
  assumes "\<And>ps. response_parts r = Some ps \<Longrightarrow> find has_image ps = None"
  shows "after_response r =
           Inl (new_Error (if truthy (response_text r) then text_error else no_image_error))"
  using assms by (cases "response_parts r") (auto simp: after_response_def find_image_find)

lemma catch_text_error: "catch_message rv (new_Error text_error) = text_error"
  by (cases rv) (simp_all add: new_Error_def text_error_def or_else_def auth_error_def)

lemma catch_no_image_error: "catch_message rv (new_Error no_image_error) = no_image_error"
  by (cases rv) (simp_all add: new_Error_def no_image_error_def or_else_def auth_error_def)

lemma fire_busy_inv:
  assumes "busy_inv a" and "fire rv e a = Some a'"
  shows "busy_inv a'"
proof (cases e)
  case (KeyInput k)
  with assms show ?thesis
    by (auto simp: busy_inv_def handleApiKeyChange_def Let_def split: option.splits if_splits)
next
  case (FileInput f)
  with assms show ?thesis by (auto simp: busy_inv_def split: option.splits)
next
  case (LoadEnd i)
  with assms show ?thesis
    by (auto simp: busy_inv_def handleImageUpload_def onloadend_def split: if_splits)
next
  case (PaperClick pt)
  with assms show ?thesis by (auto simp: busy_inv_def)
next
  case (TextInput t)
  with assms show ?thesis by (auto simp: busy_inv_def)
next
  case GenerateClick
  show ?thesis
  proof (cases "handleGenerate_start rv (ui a)")
    case (Pair s1 r)
    from assms GenerateClick have en: "truthy (selectedImage (ui a))" "\<not> isGenerating (ui a)"
      by (auto simp: generate_disabled_def split: if_splits)
    with assms(1) have idle: "inflight a = []" by (simp add: busy_inv_def)
    show ?thesis
    proof (cases r)
      case None
      have "s1 = ui a \<or> s1 = (ui a)\<lparr>error := Some missing_key_error\<rparr>"
        using Pair None
        by (auto simp: handleGenerate_start_def Let_def split: option.splits if_splits)
      moreover have "a' = a\<lparr>ui := s1\<rparr>"
        using assms(2) GenerateClick Pair None en by (simp add: generate_disabled_def)
      ultimately show ?thesis using en idle by (auto simp: busy_inv_def)
    next
      case (Some req)
      then have "isGenerating s1 \<and> error s1 = None \<and> generatedImage s1 = None"
        using Pair start_request by blast
      moreover have "a' = a\<lparr>ui := s1, inflight := inflight a @ [req]\<rparr>"
        using assms(2) GenerateClick Pair Some en by (simp add: generate_disabled_def)
      ultimately show ?thesis using idle by (simp add: busy_inv_def)
    qed
  qed
next
  case (Settled i outcome)
  with assms have "i < length (inflight a)" by (simp split: if_splits)
  with assms(1) have one: "length (inflight a) = 1" "i = 0" by (auto simp: busy_inv_def)
  then have "remove_nth i (inflight a) = []" by (simp add: remove_nth_def)
  with assms Settled one show ?thesis
    by (auto simp: busy_inv_def settle_not_busy split: if_splits)
next
  case CloseClick
  with assms show ?thesis by (auto simp: busy_inv_def split: if_splits)
qed

lemma run_invariant:
  assumes "\<And>e a a'. P a \<Longrightarrow> fire rv e a = Some a' \<Longrightarrow> P a'"
  shows "P a \<Longrightarrow> run rv es a = Some a' \<Longrightarrow> P a'"
proof (induction es arbitrary: a)
  case Nil
  then show ?case by simp
next
  case (Cons e es)
  then show ?case using assms by (auto split: option.splits)
qed

lemma boot_busy_inv: "busy_inv (boot ls env)"
  by (simp add: busy_inv_def boot_def initial_session_def)

lemma reachable_busy_inv:
  assumes "run rv es (boot ls env) = Some a"
  shows "busy_inv a"
proof (rule run_invariant [where P = busy_inv])
  show "busy_inv (boot ls env)" by (rule boot_busy_inv)
  show "run rv es (boot ls env) = Some a" by fact
  show "\<And>e b b'. busy_inv b \<Longrightarrow> fire rv e b = Some b' \<Longrightarrow> busy_inv b'"
    by (rule fire_busy_inv)
qed

lemma sample_start:
  "handleGenerate_start Part_001 sample_session = (busy_session, Some sample_request)"
  by (simp add: handleGenerate_start_def Let_def sample_session_def busy_session_def
        sample_request_def sample_image_def)

lemma sample_run: "run Part_001 sample_events (boot empty_store None) = Some busy_app"
  by (simp add: Let_def sample_events_def boot_def initial_session_def initial_apiKey_def
        empty_store_def or_else_def or_opt_def truthy_def handleImageUpload_def onloadend_def
        remove_nth_def handleApiKeyChange_def generate_disabled_def handleGenerate_start_def
        busy_app_def busy_session_def sample_session_def sample_request_def sample_image_def)

lemma run_append:
  "run rv (es @ es') a = (case run rv es a of None \<Rightarrow> None | Some b \<Rightarrow> run rv es' b)"
  by (induction es arbitrary: a) (auto split: option.splits)

text \<open>
  The credential guard returns before the resets, so the message it sets can stand beside
  an earlier output: generate an image, empty the key field, click again.
\<close>

lemma guard_return_keeps_output:
  "run Part_001 stale_events (boot empty_store None) = Some stale_app"
proof -
  have tb: "try_block (Returned image_response) = Inr ''data:image/jpeg;base64,QUJD''"
    by (simp add: try_block_def after_response_def response_parts_def image_response_def
          sample_parts_def has_image_def data_url_def truthy_def or_else_def)
  show ?thesis
    by (simp add: stale_events_def stale_app_def run_append sample_run busy_app_def
          busy_session_def sample_session_def sample_image_def remove_nth_def
          settle_success [OF tb] handleApiKeyChange_def generate_disabled_def truthy_def
          handleGenerate_start_def)
qed

lemma fresh_session:
  "initial_session empty_store None =
     \<lparr> selectedImage = None, generatedImage = None, isGenerating = False, error = None,
       customText = ''FESTIVAL, LOVE, FUN'', paperType = Lined, lastPrompt = '''',
       apiKey = '''' \<rparr>"
  by (simp add: initial_session_def initial_apiKey_def empty_store_def or_opt_def or_else_def
        truthy_def)

lemma find_has_image:
  "p \<in> set ps \<Longrightarrow> has_image p \<Longrightarrow> \<exists>p0. find has_image ps = Some p0 \<and> has_image p0"
  by (induction ps) auto

lemma data_url_image:
  assumes "has_image p"
  shows "\<exists>b d. inlineData p = Some b \<and> data b = Some d \<and> d \<noteq> []
           \<and> data_url p = ''data:'' @ or_else (mimeType b) ''image/png'' @ '';base64,'' @ d"
  using assms by (auto simp: has_image_def data_url_def truthy_def split: option.splits)

lemma handleGenerate_issued:
  "handleGenerate_start rv s = (s1, Some req) \<Longrightarrow>
     handleGenerate rv api s = handleGenerate_settle rv (api req) s1"
  by (simp add: handleGenerate_def)

lemma initial_apiKey_cases:
  "initial_apiKey ls env =
     (case ls ''gemini_api_key'' of
        None \<Rightarrow> or_else env []
      | Some k \<Rightarrow> if k = [] then or_else env [] else k)"
  by (simp add: initial_apiKey_def storage_key_def or_opt_def or_else_def truthy_def
        split: option.splits)

lemma handleApiKeyChange_fst: "apiKey (fst (handleApiKeyChange newKey (s, ls))) = newKey"
  by (simp add: handleApiKeyChange_def Let_def split: option.splits)

lemma handleApiKeyChange_snd:
  "snd (handleApiKeyChange newKey (s, ls)) = ls(storage_key \<mapsto> newKey)"
  by (simp add: handleApiKeyChange_def Let_def split: option.splits)

lemma start_keeps_apiKey: "apiKey (fst (handleGenerate_start rv s)) = apiKey s"
  by (cases rv) (simp_all add: handleGenerate_start_def Let_def split: option.splits)

lemma settle_keeps_apiKey: "apiKey (handleGenerate_settle rv outcome s) = apiKey s"
  by (simp add: handleGenerate_settle_def Let_def split: sum.splits)

lemma boot_reload_inv: "reload_inv env (boot ls env)"
  by (auto simp: reload_inv_def boot_def initial_session_def initial_apiKey_def or_opt_def
        or_else_def truthy_def split: option.splits)

lemma fire_reload_inv:
  assumes "reload_inv env a" and "fire rv e a = Some a'"
  shows "reload_inv env a'"
proof (cases e)
  case (KeyInput k)
  then have "apiKey (ui a') = k" "localStorage a' = (localStorage a)(storage_key \<mapsto> k)"
    using assms(2) handleApiKeyChange_fst [of k "ui a" "localStorage a"]
      handleApiKeyChange_snd [of k "ui a" "localStorage a"]
    by (auto split: prod.splits)
  then show ?thesis
    by (simp add: reload_inv_def initial_apiKey_def or_opt_def or_else_def truthy_def)
next
  case GenerateClick
  then have "apiKey (ui a') = apiKey (ui a) \<and> localStorage a' = localStorage a"
    using assms(2) start_keeps_apiKey [of rv "ui a"]
    by (auto split: if_splits prod.splits option.splits)
  with assms(1) show ?thesis by (simp add: reload_inv_def)
next
  case (Settled i outcome)
  then have "apiKey (ui a') = apiKey (ui a) \<and> localStorage a' = localStorage a"
    using assms(2) by (auto simp: settle_keeps_apiKey split: if_splits)
  with assms(1) show ?thesis by (simp add: reload_inv_def)
next
  case (LoadEnd i)
  then have "apiKey (ui a') = apiKey (ui a) \<and> localStorage a' = localStorage a"
    using assms(2) by (auto simp: handleImageUpload_def onloadend_def split: if_splits)
  with assms(1) show ?thesis by (simp add: reload_inv_def)
qed (use assms in \<open>auto simp: reload_inv_def split: if_splits option.splits\<close>)

lemma reachable_reload_inv:
  assumes "run rv es (boot ls env) = Some a"
  shows "reload_inv env a"
proof (rule run_invariant [where P = "reload_inv env"])
  show "reload_inv env (boot ls env)" by (rule boot_reload_inv)
  show "run rv es (boot ls env) = Some a" by fact
  show "\<And>e b b'. reload_inv env b \<Longrightarrow> fire rv e b = Some b' \<Longrightarrow> reload_inv env b'"
    by (rule fire_reload_inv)
qed

section \<open>The claims\<close>

text \<open>
  C1, as stated, fails. A click with a source image and an empty credential is a
  generation attempt that ends at the credential guard: \<^verbatim>\<open>error\<close> is set, and an
  earlier \<^verbatim>\<open>generatedImage\<close> stays, since the guard returns before the resets. The page
  reaches such a state by clicks alone, and the handler does the same in both revisions.
\<close>

theorem generation_outcome_counterexample:
  "run Part_001 stale_events (boot empty_store None) = Some stale_app
   \<and> generatedImage (ui stale_app) = Some ''data:image/jpeg;base64,QUJD''
   \<and> error (ui stale_app) = Some ''Please enter your Gemini API Key first.''
   \<and> generatedImage (handleGenerate Part_001 (service (Returned image_response)) keyless_session)
       = Some ''data:image/png;base64,QUJD''
   \<and> error (handleGenerate Part_001 (service (Returned image_response)) keyless_session)
       = Some ''Please enter your Gemini API Key first.''
   \<and> generatedImage (handleGenerate Part_000 (service (Returned image_response)) keyless_session)
       = Some ''data:image/png;base64,QUJD''
   \<and> error (handleGenerate Part_000 (service (Returned image_response)) keyless_session)
       = Some ''Please enter your Gemini API Key first.''"
proof -
  have "truthy (selectedImage keyless_session)" and "apiKey keyless_session = []"
    by (simp_all add: keyless_session_def sample_session_def sample_image_def truthy_def)
  then have "handleGenerate rv (service (Returned image_response)) keyless_session
      = keyless_session\<lparr>error := Some missing_key_error\<rparr>" for rv
    by (simp add: handleGenerate_def start_no_key)
  then show ?thesis
    using guard_return_keeps_output
    by (simp add: stale_app_def keyless_session_def missing_key_error_def)
qed

text \<open>
  C1, amended. A generation attempt that gets past both guards and runs to its end leaves
  exactly one of \<^verbatim>\<open>generatedImage\<close> and \<^verbatim>\<open>error\<close> non-null: when the try block ends
  with an image, \<^verbatim>\<open>generatedImage\<close> is its data URL and \<^verbatim>\<open>error\<close> is null; when
  anything is thrown, by the code itself or by the service, \<^verbatim>\<open>error\<close> is the
  (non-empty) message of the catch block and \<^verbatim>\<open>generatedImage\<close> is null. This holds
  of a run with no other event in between, from any session, and of every call that
  settles in a state the page can reach, whatever happened while it was outstanding. An
  attempt that ends at the credential guard sets \<^verbatim>\<open>error\<close> to the missing-credential
  message and leaves \<^verbatim>\<open>generatedImage\<close> as it was; one that ends at the source-image
  guard leaves the session as it was.
\<close>

theorem generation_outcome_exclusive:
  "(handleGenerate_start rv s = (s1, Some req) \<longrightarrow>
      (case try_block (api req) of
         Inr url \<Rightarrow> generatedImage (handleGenerate rv api s) = Some url
                     \<and> error (handleGenerate rv api s) = None
       | Inl e \<Rightarrow> error (handleGenerate rv api s) = Some (catch_message rv e)
                   \<and> catch_message rv e \<noteq> []
                   \<and> generatedImage (handleGenerate rv api s) = None)
      \<and> (generatedImage (handleGenerate rv api s) = None)
          \<noteq> (error (handleGenerate rv api s) = None))
   \<and> (run rv es (boot ls env) = Some a \<and> fire rv (Settled i outcome) a = Some a' \<longrightarrow>
      (case try_block outcome of
         Inr url \<Rightarrow> generatedImage (ui a') = Some url \<and> error (ui a') = None
       | Inl e \<Rightarrow> error (ui a') = Some (catch_message rv e) \<and> generatedImage (ui a') = None))
   \<and> (truthy (selectedImage s) \<and> apiKey s = [] \<longrightarrow>
      error (handleGenerate rv api s) = Some missing_key_error
      \<and> generatedImage (handleGenerate rv api s) = generatedImage s)
   \<and> (\<not> truthy (selectedImage s) \<longrightarrow> handleGenerate rv api s = s)"
proof -
  have passed: "handleGenerate_start rv s = (s1, Some req) \<longrightarrow>
      (case try_block (api req) of
         Inr url \<Rightarrow> generatedImage (handleGenerate rv api s) = Some url
                     \<and> error (handleGenerate rv api s) = None
       | Inl e \<Rightarrow> error (handleGenerate rv api s) = Some (catch_message rv e)
                   \<and> catch_message rv e \<noteq> []
                   \<and> generatedImage (handleGenerate rv api s) = None)
      \<and> (generatedImage (handleGenerate rv api s) = None)
          \<noteq> (error (handleGenerate rv api s) = None)"
  proof (rule impI)
    assume st: "handleGenerate_start rv s = (s1, Some req)"
    then have s1: "error s1 = None" "generatedImage s1 = None"
      using start_request by blast+
    have whole: "handleGenerate rv api s = handleGenerate_settle rv (api req) s1"
      using st by (simp add: handleGenerate_def)
    show "(case try_block (api req) of
             Inr url \<Rightarrow> generatedImage (handleGenerate rv api s) = Some url
                         \<and> error (handleGenerate rv api s) = None
           | Inl e \<Rightarrow> error (handleGenerate rv api s) = Some (catch_message rv e)
                       \<and> catch_message rv e \<noteq> []
                       \<and> generatedImage (handleGenerate rv api s) = None)
          \<and> (generatedImage (handleGenerate rv api s) = None)
              \<noteq> (error (handleGenerate rv api s) = None)"
    proof (cases "try_block (api req)")
      case (Inl e)
      then show ?thesis using s1 whole by (simp add: settle_failure catch_message_nonempty)
    next
      case (Inr url)
      then show ?thesis using s1 whole by (simp add: settle_success)
    qed
  qed
  have settled: "run rv es (boot ls env) = Some a \<and> fire rv (Settled i outcome) a = Some a' \<longrightarrow>
      (case try_block outcome of
         Inr url \<Rightarrow> generatedImage (ui a') = Some url \<and> error (ui a') = None
       | Inl e \<Rightarrow> error (ui a') = Some (catch_message rv e) \<and> generatedImage (ui a') = None)"
  proof (rule impI)
    assume "run rv es (boot ls env) = Some a \<and> fire rv (Settled i outcome) a = Some a'"
    then have reach: "run rv es (boot ls env) = Some a"
      and step: "fire rv (Settled i outcome) a = Some a'" by simp_all
    from reach have inv: "busy_inv a" by (rule reachable_busy_inv)
    from step have i: "i < length (inflight a)" by (simp split: if_splits)
    with inv have clear: "generatedImage (ui a) = None" "error (ui a) = None"
      by (auto simp: busy_inv_def)
    from step i have a': "ui a' = handleGenerate_settle rv outcome (ui a)" by auto
    show "case try_block outcome of
            Inr url \<Rightarrow> generatedImage (ui a') = Some url \<and> error (ui a') = None
          | Inl e \<Rightarrow> error (ui a') = Some (catch_message rv e) \<and> generatedImage (ui a') = None"
      using a' clear by (cases "try_block outcome") (simp_all add: settle_failure settle_success)
  qed
  have no_key: "truthy (selectedImage s) \<and> apiKey s = [] \<longrightarrow>
      error (handleGenerate rv api s) = Some missing_key_error
      \<and> generatedImage (handleGenerate rv api s) = generatedImage s"
    by (simp add: handleGenerate_def start_no_key)
  have no_image: "\<not> truthy (selectedImage s) \<longrightarrow> handleGenerate rv api s = s"
    by (simp add: handleGenerate_def start_no_image)
  show ?thesis
    by (intro conjI passed settled no_key no_image)
qed

text \<open>
  The sample session gets an image from the sample response; the sample page, whose call
  fails at the network, gets the generic message.
\<close>

theorem generation_outcome_exclusive_witness:
  "handleGenerate_start Part_001 sample_session = (busy_session, Some sample_request)
   \<and> generatedImage (handleGenerate Part_001 (service (Returned image_response)) sample_session)
       = Some ''data:image/jpeg;base64,QUJD''
   \<and> error (handleGenerate Part_001 (service (Returned image_response)) sample_session) = None
   \<and> run Part_001 sample_events (boot empty_store None) = Some busy_app
   \<and> fire Part_001 (Settled 0 (Threw fetch_failure)) busy_app
       = Some (busy_app\<lparr>ui := handleGenerate_settle Part_001 (Threw fetch_failure) busy_session,
                 inflight := []\<rparr>)
   \<and> error (handleGenerate_settle Part_001 (Threw fetch_failure) busy_session)
       = Some ''Generation failed. This is often because your API key is not linked to a billing account (required for image generation). Please check Option 1 below or use Option 2.''
   \<and> generatedImage (handleGenerate_settle Part_001 (Threw fetch_failure) busy_session) = None
   \<and> truthy (selectedImage keyless_session) \<and> apiKey keyless_session = []
   \<and> error (handleGenerate Part_001 (service (Threw fetch_failure)) keyless_session)
       = Some ''Please enter your Gemini API Key first.''
   \<and> generatedImage (handleGenerate Part_001 (service (Threw fetch_failure)) keyless_session)
       = Some ''data:image/png;base64,QUJD''
   \<and> \<not> truthy (selectedImage (initial_session empty_store None))
   \<and> handleGenerate Part_001 (service (Threw fetch_failure)) (initial_session empty_store None)
       = initial_session empty_store None"
proof -
  have tb: "try_block (Returned image_response) = Inr ''data:image/jpeg;base64,QUJD''"
    by (simp add: try_block_def after_response_def response_parts_def image_response_def
          sample_parts_def has_image_def data_url_def truthy_def or_else_def)
  have tf: "try_block (Threw fetch_failure) = Inl fetch_failure"
    by (simp add: try_block_def)
  have cm: "catch_message Part_001 fetch_failure = generic_error"
    by (simp add: fetch_failure_def or_else_def)
  have fr: "fire Part_001 (Settled 0 (Threw fetch_failure)) busy_app
       = Some (busy_app\<lparr>ui := handleGenerate_settle Part_001 (Threw fetch_failure) busy_session,
                 inflight := []\<rparr>)"
    by (simp add: busy_app_def remove_nth_def)
  have kl: "truthy (selectedImage keyless_session) \<and> apiKey keyless_session = []"
    by (simp add: keyless_session_def sample_session_def sample_image_def truthy_def)
  have fs: "\<not> truthy (selectedImage (initial_session empty_store None))"
    by (simp add: fresh_session truthy_def)
  note passed = generation_outcome_exclusive
      [where rv = Part_001 and s = sample_session and ?s1.0 = busy_session
         and req = sample_request and api = "service (Returned image_response)"
         and es = sample_events and ls = empty_store and env = None and a = busy_app
         and i = 0 and outcome = "Threw fetch_failure"
         and a' = "busy_app\<lparr>ui := handleGenerate_settle Part_001 (Threw fetch_failure) busy_session,
                 inflight := []\<rparr>"]
  have 1: "generatedImage (handleGenerate Part_001 (service (Returned image_response)) sample_session)
       = Some ''data:image/jpeg;base64,QUJD''
     \<and> error (handleGenerate Part_001 (service (Returned image_response)) sample_session) = None"
    using passed sample_start tb by simp
  have 2: "error (handleGenerate_settle Part_001 (Threw fetch_failure) busy_session)
       = Some generic_error
     \<and> generatedImage (handleGenerate_settle Part_001 (Threw fetch_failure) busy_session) = None"
    using passed sample_run fr tf cm by (simp add: busy_app_def)
  have 3: "error (handleGenerate Part_001 (service (Threw fetch_failure)) keyless_session)
       = Some missing_key_error
     \<and> generatedImage (handleGenerate Part_001 (service (Threw fetch_failure)) keyless_session)
       = generatedImage keyless_session"
    using generation_outcome_exclusive
      [where rv = Part_001 and s = keyless_session and api = "service (Threw fetch_failure)"
         and ?s1.0 = busy_session and req = sample_request and es = sample_events
         and ls = empty_store and env = None and a = busy_app and i = 0
         and outcome = "Threw fetch_failure" and a' = busy_app] kl
    by blast
  have 4: "handleGenerate Part_001 (service (Threw fetch_failure)) (initial_session empty_store None)
       = initial_session empty_store None"
    using generation_outcome_exclusive
      [where rv = Part_001 and s = "initial_session empty_store None"
         and api = "service (Threw fetch_failure)"
         and ?s1.0 = busy_session and req = sample_request and es = sample_events
         and ls = empty_store and env = None and a = busy_app and i = 0
         and outcome = "Threw fetch_failure" and a' = busy_app] fs
    by blast
  show ?thesis
    using 1 2 3 4 kl fs sample_start sample_run fr
    by (simp add: generic_error_def missing_key_error_def keyless_session_def)
qed

text \<open>
  C2, as stated, fails: with an empty credential and no source image (the page as it
  loads), \<^verbatim>\<open>handleGenerate\<close> returns at its first guard, and no message is set.
\<close>

theorem missing_key_counterexample:
  "apiKey (initial_session empty_store None) = []
   \<and> snd (handleGenerate_start Part_001 (initial_session empty_store None)) = None
   \<and> error (fst (handleGenerate_start Part_001 (initial_session empty_store None))) = None
   \<and> error (fst (handleGenerate_start Part_001 (initial_session empty_store None)))
       \<noteq> Some missing_key_error
   \<and> error (fst (handleGenerate_start Part_000 (initial_session empty_store None))) = None"
  by (simp add: fresh_session handleGenerate_start_def)

text \<open>
  C2, amended. With a source image selected and an empty credential,
  \<^verbatim>\<open>handleGenerate\<close> issues no request and sets \<^verbatim>\<open>error\<close> to the missing-credential
  message, changing nothing else, whatever the other fields hold. The generate button is
  disabled without a source image, so every click on it with an empty credential does this.
\<close>

theorem missing_key_with_image:
  "(truthy (selectedImage s) \<and> apiKey s = [] \<longrightarrow>
      handleGenerate_start rv s = (s\<lparr>error := Some missing_key_error\<rparr>, None)
      \<and> handleGenerate rv api s = s\<lparr>error := Some missing_key_error\<rparr>)
   \<and> (fire rv GenerateClick a = Some a' \<and> apiKey (ui a) = [] \<longrightarrow>
      a' = a\<lparr>ui := (ui a)\<lparr>error := Some missing_key_error\<rparr>\<rparr>)"
proof (rule conjI; rule impI)
  assume "truthy (selectedImage s) \<and> apiKey s = []"
  then show "handleGenerate_start rv s = (s\<lparr>error := Some missing_key_error\<rparr>, None)
      \<and> handleGenerate rv api s = s\<lparr>error := Some missing_key_error\<rparr>"
    by (simp add: start_no_key handleGenerate_def)
next
  assume h: "fire rv GenerateClick a = Some a' \<and> apiKey (ui a) = []"
  then have "truthy (selectedImage (ui a))"
    by (auto simp: generate_disabled_def split: if_splits)
  with h show "a' = a\<lparr>ui := (ui a)\<lparr>error := Some missing_key_error\<rparr>\<rparr>"
    by (auto simp: start_no_key generate_disabled_def split: if_splits)
qed

text \<open>
  A session with an image, an earlier output and an emptied key field.
\<close>

theorem missing_key_with_image_witness:
  "truthy (selectedImage keyless_session) \<and> apiKey keyless_session = []
   \<and> snd (handleGenerate_start Part_001 keyless_session) = None
   \<and> error (handleGenerate Part_001 (service (Returned image_response)) keyless_session)
       = Some ''Please enter your Gemini API Key first.''
   \<and> fire Part_001 GenerateClick keyless_app
       = Some (keyless_app\<lparr>ui := keyless_session\<lparr>error := Some missing_key_error\<rparr>\<rparr>)
   \<and> apiKey (ui keyless_app) = []"
proof -
  have g: "truthy (selectedImage keyless_session) \<and> apiKey keyless_session = []"
    by (simp add: keyless_session_def sample_session_def sample_image_def truthy_def)
  have f: "fire Part_001 GenerateClick keyless_app
       = Some (keyless_app\<lparr>ui := keyless_session\<lparr>error := Some missing_key_error\<rparr>\<rparr>)"
    using g by (simp add: keyless_app_def generate_disabled_def start_no_key)
      (simp add: keyless_session_def sample_session_def)
  show ?thesis
    using g f missing_key_with_image
      [of keyless_session Part_001 "service (Returned image_response)" keyless_app
          "keyless_app\<lparr>ui := keyless_session\<lparr>error := Some missing_key_error\<rparr>\<rparr>"]
    by (simp add: missing_key_error_def keyless_app_def)
qed

text \<open>
  C3. When the read of a newly chosen file ends with the image \<open>img\<close>, the callback
  registered by \<^verbatim>\<open>handleImageUpload\<close> sets \<^verbatim>\<open>selectedImage\<close> to \<open>img\<close> and both
  \<^verbatim>\<open>generatedImage\<close> and \<^verbatim>\<open>error\<close> to null, from any session, and changes no other
  field.
\<close>

theorem upload_resets_output:
  "handleImageUpload (Some (File (Some img))) = Some (onloadend (Some img))
   \<and> onloadend (Some img) s
       = s\<lparr>selectedImage := Some img, generatedImage := None, error := None\<rparr>
   \<and> selectedImage (onloadend (Some img) s) = Some img
   \<and> generatedImage (onloadend (Some img) s) = None
   \<and> error (onloadend (Some img) s) = None"
  by (simp add: handleImageUpload_def onloadend_def)

text \<open>
  A new image chosen while an earlier output and an error are on the page.
\<close>

theorem upload_resets_output_witness:
  "selectedImage (onloadend (Some sample_image)
       (keyless_session\<lparr>error := Some missing_key_error\<rparr>)) = Some sample_image
   \<and> generatedImage (onloadend (Some sample_image)
       (keyless_session\<lparr>error := Some missing_key_error\<rparr>)) = None
   \<and> error (onloadend (Some sample_image)
       (keyless_session\<lparr>error := Some missing_key_error\<rparr>)) = None
   \<and> generatedImage (keyless_session\<lparr>error := Some missing_key_error\<rparr>)
       = Some ''data:image/png;base64,QUJD''"
  using upload_resets_output [of sample_image "keyless_session\<lparr>error := Some missing_key_error\<rparr>"]
  by (simp add: keyless_session_def)

text \<open>
  C4. When the attempt has issued its request and the part list \<open>ps\<close> of the response's
  first candidate (\<^verbatim>\<open>response.candidates[0].content.parts\<close>; the candidates after it
  are not looked at) has a part with inline data (\<^verbatim>\<open>inlineData\<close> with non-empty
  \<^verbatim>\<open>data\<close>, which is the test of the loop), the attempt ends with \<^verbatim>\<open>generatedImage\<close>
  the data URL of the first such part of \<open>ps\<close>,
  \<^verbatim>\<open>data:<mimeType or image/png>;base64,<data>\<close>, with \<^verbatim>\<open>error\<close> null and the busy
  flag off.
\<close>

theorem first_image_part_is_shown:
  assumes "handleGenerate_start rv s = (s1, Some req)" and "api req = Returned r"
    and "candidates r = Some (Candidate (Some (Content (Some ps))) # cs)"
    and "p \<in> set ps" and "has_image p"
  shows "\<exists>p0 b d. find has_image ps = Some p0
           \<and> (\<exists>i<length ps. p0 = ps ! i \<and> has_image p0 \<and> (\<forall>j<i. \<not> has_image (ps ! j)))
           \<and> inlineData p0 = Some b \<and> data b = Some d
           \<and> generatedImage (handleGenerate rv api s)
               = Some (''data:'' @ or_else (mimeType b) ''image/png'' @ '';base64,'' @ d)
           \<and> error (handleGenerate rv api s) = None
           \<and> \<not> isGenerating (handleGenerate rv api s)"
proof -
  from assms(4,5) obtain p0 where p0: "find has_image ps = Some p0" "has_image p0"
    using find_has_image by blast
  then have first: "\<exists>i<length ps. p0 = ps ! i \<and> has_image p0 \<and> (\<forall>j<i. \<not> has_image (ps ! j))"
    by (auto simp: find_Some_iff)
  from p0(2) obtain b d where bd: "inlineData p0 = Some b" "data b = Some d"
    "data_url p0 = ''data:'' @ or_else (mimeType b) ''image/png'' @ '';base64,'' @ d"
    using data_url_image by blast
  have "response_parts r = Some ps"
    using assms(3) by (simp add: response_parts_def)
  then have "try_block (api req) = Inr (data_url p0)"
    using assms(2) p0(1) by (simp add: try_block_def after_response_image)
  then have "handleGenerate rv api s = s1\<lparr>generatedImage := Some (data_url p0), isGenerating := False\<rparr>"
    using assms(1) by (simp add: handleGenerate_issued settle_success)
  moreover have "error s1 = None" using assms(1) start_request by blast
  ultimately show ?thesis using p0(1) first bd by simp
qed

text \<open>
  The sample response has two candidates. The first has a text part, then two parts with
  inline data; the first of the two is shown, whatever comes after it, in the list or in
  the second candidate.
\<close>

theorem first_image_part_is_shown_witness:
  "handleGenerate_start Part_001 sample_session = (busy_session, Some sample_request)
   \<and> service (Returned two_candidate_response) sample_request = Returned two_candidate_response
   \<and> candidates two_candidate_response
       = Some (Candidate (Some (Content (Some sample_parts)))
               # [Candidate (Some (Content (Some
                    [Part None (Some (Blob (Some ''image/gif'') (Some ''R0lG'')))])))])
   \<and> Part None (Some (Blob None (Some ''REVG''))) \<in> set sample_parts
   \<and> has_image (Part None (Some (Blob None (Some ''REVG''))))
   \<and> find has_image sample_parts
       = Some (Part None (Some (Blob (Some ''image/jpeg'') (Some ''QUJD''))))
   \<and> generatedImage (handleGenerate Part_001 (service (Returned two_candidate_response))
        sample_session) = Some ''data:image/jpeg;base64,QUJD''
   \<and> error (handleGenerate Part_001 (service (Returned two_candidate_response))
        sample_session) = None"
proof -
  have cand: "candidates two_candidate_response
       = Some (Candidate (Some (Content (Some sample_parts)))
               # [Candidate (Some (Content (Some
                    [Part None (Some (Blob (Some ''image/gif'') (Some ''R0lG'')))])))])"
    by (simp add: two_candidate_response_def)
  have hi: "has_image (Part None (Some (Blob None (Some ''REVG''))))"
    by (simp add: has_image_def truthy_def)
  have sv: "service (Returned two_candidate_response) sample_request
      = Returned two_candidate_response"
    by simp
  have mem: "Part None (Some (Blob None (Some ''REVG''))) \<in> set sample_parts"
    by (simp add: sample_parts_def)
  have fst: "find has_image sample_parts
       = Some (Part None (Some (Blob (Some ''image/jpeg'') (Some ''QUJD''))))"
    by (simp add: sample_parts_def has_image_def truthy_def)
  obtain p0 b d where "find has_image sample_parts = Some p0"
    and "inlineData p0 = Some b" and "data b = Some d"
    and "generatedImage (handleGenerate Part_001 (service (Returned two_candidate_response))
           sample_session)
           = Some (''data:'' @ or_else (mimeType b) ''image/png'' @ '';base64,'' @ d)"
    and "error (handleGenerate Part_001 (service (Returned two_candidate_response))
           sample_session) = None"
    using first_image_part_is_shown
      [where rv = Part_001 and s = sample_session and ?s1.0 = busy_session
         and req = sample_request and api = "service (Returned two_candidate_response)"
         and r = two_candidate_response, OF sample_start sv cand mem hi]
    by blast
  then show ?thesis using cand hi sv mem fst sample_start
    by (auto simp: or_else_def)
qed

text \<open>
  C5. When the response's first candidate has no part with inline data and
  \<^verbatim>\<open>response.text\<close> is truthy, the attempt ends with \<^verbatim>\<open>generatedImage\<close> null and
  \<^verbatim>\<open>error\<close> the text-instead-of-image message, in both revisions.
\<close>

theorem text_only_response_error:
  assumes "handleGenerate_start rv s = (s1, Some req)" and "api req = Returned r"
    and "\<forall>ps. response_parts r = Some ps \<longrightarrow> (\<forall>p\<in>set ps. \<not> has_image p)"
    and "truthy (response_text r)"
  shows "generatedImage (handleGenerate rv api s) = None
         \<and> error (handleGenerate rv api s) = Some text_error
         \<and> \<not> isGenerating (handleGenerate rv api s)"
proof -
  have "find has_image ps = None" if "response_parts r = Some ps" for ps
    using that assms(3) by (auto simp: find_None_iff)
  then have "after_response r = Inl (new_Error text_error)"
    using assms(4) by (simp add: after_response_no_image)
  then have "handleGenerate rv api s = s1\<lparr>error := Some text_error, isGenerating := False\<rparr>"
    using assms(1,2)
    by (simp add: handleGenerate_issued try_block_def settle_failure catch_text_error)
  moreover have "generatedImage s1 = None" using assms(1) start_request by blast
  ultimately show ?thesis by simp
qed

theorem text_only_response_error_witness:
  "handleGenerate_start Part_001 sample_session = (busy_session, Some sample_request)
   \<and> service (Returned text_response) sample_request = Returned text_response
   \<and> response_parts text_response = Some [Part (Some ''I cannot draw that'') None]
   \<and> \<not> has_image (Part (Some ''I cannot draw that'') None)
   \<and> truthy (response_text text_response)
   \<and> generatedImage (handleGenerate Part_001 (service (Returned text_response)) sample_session) = None
   \<and> error (handleGenerate Part_001 (service (Returned text_response)) sample_session)
       = Some ''The AI returned text instead of an image. It might have misunderstood the prompt or triggered a safety filter.''"
proof -
  have rp: "response_parts text_response = Some [Part (Some ''I cannot draw that'') None]"
    by (simp add: response_parts_def text_response_def)
  have ni: "\<not> has_image (Part (Some ''I cannot draw that'') None)"
    by (simp add: has_image_def)
  have tx: "truthy (response_text text_response)"
    by (simp add: text_response_def truthy_def)
  have sv: "service (Returned text_response) sample_request = Returned text_response"
    by simp
  have "\<forall>ps. response_parts text_response = Some ps \<longrightarrow> (\<forall>p\<in>set ps. \<not> has_image p)"
    using rp ni by simp
  from text_only_response_error
      [where rv = Part_001 and s = sample_session and ?s1.0 = busy_session
         and req = sample_request and api = "service (Returned text_response)"
         and r = text_response, OF sample_start sv this tx] rp ni tx sample_start
  show ?thesis by (simp add: text_error_def)
qed

text \<open>
  C6. When the response's first candidate has no part with inline data and
  \<^verbatim>\<open>response.text\<close> is falsy, the attempt ends with \<^verbatim>\<open>generatedImage\<close> null and
  \<^verbatim>\<open>error\<close> the no-image message, in both revisions.
\<close>

theorem empty_response_error:
  assumes "handleGenerate_start rv s = (s1, Some req)" and "api req = Returned r"
    and "\<forall>ps. response_parts r = Some ps \<longrightarrow> (\<forall>p\<in>set ps. \<not> has_image p)"
    and "\<not> truthy (response_text r)"
  shows "generatedImage (handleGenerate rv api s) = None
         \<and> error (handleGenerate rv api s) = Some no_image_error
         \<and> \<not> isGenerating (handleGenerate rv api s)"
proof -
  have "find has_image ps = None" if "response_parts r = Some ps" for ps
    using that assms(3) by (auto simp: find_None_iff)
  then have "after_response r = Inl (new_Error no_image_error)"
    using assms(4) by (simp add: after_response_no_image)
  then have "handleGenerate rv api s = s1\<lparr>error := Some no_image_error, isGenerating := False\<rparr>"
    using assms(1,2)
    by (simp add: handleGenerate_issued try_block_def settle_failure catch_no_image_error)
  moreover have "generatedImage s1 = None" using assms(1) start_request by blast
  ultimately show ?thesis by simp
qed

theorem empty_response_error_witness:
  "handleGenerate_start Part_001 sample_session = (busy_session, Some sample_request)
   \<and> service (Returned empty_response) sample_request = Returned empty_response
   \<and> response_parts empty_response = None
   \<and> \<not> truthy (response_text empty_response)
   \<and> generatedImage (handleGenerate Part_001 (service (Returned empty_response)) sample_session) = None
   \<and> error (handleGenerate Part_001 (service (Returned empty_response)) sample_session)
       = Some ''No image was generated. Please try again with a different photo.''"
proof -
  have rp: "response_parts empty_response = None"
    by (simp add: response_parts_def empty_response_def)
  have tx: "\<not> truthy (response_text empty_response)"
    by (simp add: empty_response_def truthy_def)
  have sv: "service (Returned empty_response) sample_request = Returned empty_response"
    by simp
  have "\<forall>ps. response_parts empty_response = Some ps \<longrightarrow> (\<forall>p\<in>set ps. \<not> has_image p)"
    using rp by simp
  from empty_response_error
      [where rv = Part_001 and s = sample_session and ?s1.0 = busy_session
         and req = sample_request and api = "service (Returned empty_response)"
         and r = empty_response, OF sample_start sv this tx] rp tx sample_start
  show ?thesis by (simp add: no_image_error_def)
qed

text \<open>
  C7, as stated, fails. In part_001 a failure whose message contains \<^verbatim>\<open>401\<close> while its
  string form does not (a thrown plain object) gets the generic hint, not the
  authentication message: \<^verbatim>\<open>401\<close> and \<^verbatim>\<open>403\<close> are looked for in the string form only.
  In part_000 there is no generic hint: a network failure shows its own message.
\<close>

theorem catch_classification_counterexample:
  "js_includes ''401 Unauthorized'' ''401''
   \<and> catch_message Part_001 (Thrown ''[object Object]'' (Some ''401 Unauthorized''))
       = generic_error
   \<and> generic_error \<noteq> auth_error
   \<and> catch_message Part_000 (Thrown ''TypeError: Failed to fetch'' (Some ''Failed to fetch''))
       = ''Failed to fetch''
   \<and> ''Failed to fetch'' \<noteq> generic_error"
  by (simp add: or_else_def generic_error_def auth_error_def)

text \<open>
  C7, amended. In part_001 the catch block sets the authentication message when the string
  form of the failure contains \<^verbatim>\<open>401\<close>, \<^verbatim>\<open>403\<close> or \<^verbatim>\<open>API key\<close>, or its message
  contains \<^verbatim>\<open>API key\<close>; otherwise the failure's own message when that contains
  \<^verbatim>\<open>safety filter\<close>, \<^verbatim>\<open>text instead of an image\<close> or \<^verbatim>\<open>No image was generated\<close>;
  otherwise the generic billing hint. In part_000 it sets the authentication message on the
  same three phrases in the string form, and otherwise the failure's own message, or a
  fixed fallback when that is missing or empty. Either way the message goes to
  \<^verbatim>\<open>error\<close> and \<^verbatim>\<open>generatedImage\<close> is left alone. Containment is stated with the
  library's \<^const>\<open>sublist\<close>.
\<close>

theorem catch_classification:
  "catch_message Part_001 e =
     (if sublist ''401'' (toString e) \<or> sublist ''403'' (toString e)
         \<or> sublist ''API key'' (toString e) \<or> sublist ''API key'' (or_else (message e) [])
      then auth_error
      else if sublist ''safety filter'' (or_else (message e) [])
              \<or> sublist ''text instead of an image'' (or_else (message e) [])
              \<or> sublist ''No image was generated'' (or_else (message e) [])
      then or_else (message e) []
      else generic_error)
   \<and> catch_message Part_000 e =
     (if sublist ''401'' (toString e) \<or> sublist ''403'' (toString e)
         \<or> sublist ''API key'' (toString e)
      then auth_error
      else or_else (message e) fallback_error_000)
   \<and> error (handleGenerate_settle rv (Threw e) s) = Some (catch_message rv e)
   \<and> generatedImage (handleGenerate_settle rv (Threw e) s) = generatedImage s"
  by (simp add: js_includes_sublist Let_def try_block_def settle_failure)

theorem catch_classification_witness:
  "catch_message Part_001 (Thrown ''ApiError: 403 Forbidden'' (Some ''403 Forbidden''))
     = ''Authentication failed. Please check your API key.''
   \<and> catch_message Part_001 (Thrown ''Error: blocked by the safety filter'' (Some ''blocked by the safety filter''))
     = ''blocked by the safety filter''
   \<and> catch_message Part_001 fetch_failure
     = ''Generation failed. This is often because your API key is not linked to a billing account (required for image generation). Please check Option 1 below or use Option 2.''
   \<and> catch_message Part_000 fetch_failure = ''Failed to fetch''
   \<and> catch_message Part_000 (Thrown ''[object Object]'' None)
     = ''Failed to generate sketch. Please try a different photo.''"
proof -
  note c = catch_classification [unfolded js_includes_sublist [symmetric]]
  have "catch_message Part_001 (Thrown ''ApiError: 403 Forbidden'' (Some ''403 Forbidden''))
     = auth_error"
    using c [of "Thrown ''ApiError: 403 Forbidden'' (Some ''403 Forbidden'')"] by simp
  moreover have "catch_message Part_001 (Thrown ''Error: blocked by the safety filter'' (Some ''blocked by the safety filter''))
     = ''blocked by the safety filter''"
    using c [of "Thrown ''Error: blocked by the safety filter'' (Some ''blocked by the safety filter'')"]
    by (simp add: or_else_def)
  moreover have "catch_message Part_001 fetch_failure = generic_error"
    using c [of fetch_failure] by (simp add: or_else_def fetch_failure_def)
  moreover have "catch_message Part_000 fetch_failure = ''Failed to fetch''"
    using c [of fetch_failure] by (simp add: or_else_def fetch_failure_def)
  moreover have "catch_message Part_000 (Thrown ''[object Object]'' None) = fallback_error_000"
    using c [of "Thrown ''[object Object]'' None"] by (simp add: or_else_def)
  ultimately show ?thesis
    by (simp add: auth_error_def generic_error_def fallback_error_000_def)
qed

text \<open>
  C8. \<^verbatim>\<open>handleGenerate\<close> sets the busy flag exactly when both guards pass, which is when
  it issues the request, and leaves the flag alone when a guard returns; whatever way the
  call settles, the flag is false afterwards; and in every state the page can reach, the
  flag is true exactly when a call is outstanding, of which there is never more than one.
\<close>

theorem busy_flag_interval:
  "(case handleGenerate_start rv s of
      (s1, None) \<Rightarrow> isGenerating s1 = isGenerating s
                      \<and> (\<not> truthy (selectedImage s) \<or> apiKey s = [])
    | (s1, Some req) \<Rightarrow> isGenerating s1 \<and> truthy (selectedImage s) \<and> apiKey s \<noteq> [])
   \<and> \<not> isGenerating (handleGenerate_settle rv outcome s)
   \<and> (run rv es (boot ls env) = Some a \<longrightarrow>
        isGenerating (ui a) = (inflight a \<noteq> []) \<and> length (inflight a) \<le> 1)"
proof (intro conjI impI)
  show "case handleGenerate_start rv s of
      (s1, None) \<Rightarrow> isGenerating s1 = isGenerating s
                      \<and> (\<not> truthy (selectedImage s) \<or> apiKey s = [])
    | (s1, Some req) \<Rightarrow> isGenerating s1 \<and> truthy (selectedImage s) \<and> apiKey s \<noteq> []"
    by (cases rv)
       (auto simp: handleGenerate_start_def truthy_def Let_def split: option.splits)
  show "\<not> isGenerating (handleGenerate_settle rv outcome s)"
    by (rule settle_not_busy)
next
  assume "run rv es (boot ls env) = Some a"
  then have "busy_inv a" by (rule reachable_busy_inv)
  then show "isGenerating (ui a) = (inflight a \<noteq> [])" and "length (inflight a) \<le> 1"
    by (simp_all add: busy_inv_def)
qed

text \<open>
  The sample session passes both guards and becomes busy; the session with the emptied key
  field stops at the second guard and stays idle; the sample page is busy with one call
  outstanding.
\<close>

theorem busy_flag_interval_witness:
  "handleGenerate_start Part_001 sample_session = (busy_session, Some sample_request)
   \<and> \<not> isGenerating sample_session \<and> isGenerating busy_session
   \<and> \<not> isGenerating (handleGenerate_settle Part_001 (Threw fetch_failure) busy_session)
   \<and> handleGenerate_start Part_001 keyless_session
       = (keyless_session\<lparr>error := Some missing_key_error\<rparr>, None)
   \<and> \<not> isGenerating (keyless_session\<lparr>error := Some missing_key_error\<rparr>)
   \<and> run Part_001 sample_events (boot empty_store None) = Some busy_app
   \<and> isGenerating (ui busy_app) \<and> inflight busy_app = [sample_request]"
proof -
  have st0: "handleGenerate_start Part_001 keyless_session
       = (keyless_session\<lparr>error := Some missing_key_error\<rparr>, None)"
    by (simp add: start_no_key keyless_session_def sample_session_def sample_image_def
          truthy_def)
  show ?thesis
    using busy_flag_interval
        [where rv = Part_001 and s = keyless_session
           and outcome = "Threw fetch_failure" and es = sample_events and ls = empty_store
           and env = None and a = busy_app]
      busy_flag_interval
        [where rv = Part_001 and s = sample_session
           and outcome = "Threw fetch_failure" and es = sample_events
           and ls = empty_store and env = None and a = busy_app]
      busy_flag_interval
        [where rv = Part_001 and s = busy_session
           and outcome = "Threw fetch_failure" and es = sample_events
           and ls = empty_store and env = None and a = busy_app]
      st0 sample_start sample_run
    by (simp add: busy_app_def keyless_session_def sample_session_def)
qed

text \<open>
  C9. An edit of the key field sets the credential and writes it under
  \<^verbatim>\<open>gemini_api_key\<close>; the credential of a page load is the stored value when there is a
  non-empty one, else the build-time value when there is a non-empty one, else empty; so
  loading after an edit gives back the edited credential (for an emptied field: the
  build-time value or empty); and loading again from any state the page can reach gives
  the session of the first load in every other field, with the credential of that state.
\<close>

theorem credential_round_trip:
  "apiKey (fst (handleApiKeyChange newKey (s, ls))) = newKey
   \<and> snd (handleApiKeyChange newKey (s, ls)) = ls(''gemini_api_key'' \<mapsto> newKey)
   \<and> initial_apiKey ls env =
       (case ls ''gemini_api_key'' of
          None \<Rightarrow> or_else env []
        | Some k \<Rightarrow> if k = [] then or_else env [] else k)
   \<and> initial_apiKey (snd (handleApiKeyChange newKey (s, ls))) env =
       (if newKey = [] then or_else env [] else newKey)
   \<and> (run rv es (boot ls env) = Some a \<longrightarrow>
        ui (boot (localStorage a) env) =
          (initial_session ls env)
            \<lparr>apiKey := (if apiKey (ui a) = [] then or_else env [] else apiKey (ui a))\<rparr>)"
proof (intro conjI impI)
  show "apiKey (fst (handleApiKeyChange newKey (s, ls))) = newKey"
    by (rule handleApiKeyChange_fst)
  show "snd (handleApiKeyChange newKey (s, ls)) = ls(''gemini_api_key'' \<mapsto> newKey)"
    by (simp add: handleApiKeyChange_snd storage_key_def)
  show "initial_apiKey ls env =
       (case ls ''gemini_api_key'' of
          None \<Rightarrow> or_else env []
        | Some k \<Rightarrow> if k = [] then or_else env [] else k)"
    by (rule initial_apiKey_cases)
  show "initial_apiKey (snd (handleApiKeyChange newKey (s, ls))) env =
       (if newKey = [] then or_else env [] else newKey)"
    by (simp add: handleApiKeyChange_snd initial_apiKey_cases storage_key_def)
next
  assume "run rv es (boot ls env) = Some a"
  then have "reload_inv env a" by (rule reachable_reload_inv)
  then show "ui (boot (localStorage a) env) =
          (initial_session ls env)
            \<lparr>apiKey := (if apiKey (ui a) = [] then or_else env [] else apiKey (ui a))\<rparr>"
    by (simp add: reload_inv_def boot_def initial_session_def or_else_def)
qed

theorem credential_round_trip_witness:
  "run Part_001 sample_events (boot empty_store None) = Some busy_app
   \<and> localStorage busy_app ''gemini_api_key'' = Some ''AIza-key''
   \<and> apiKey (ui (boot (localStorage busy_app) None)) = ''AIza-key''
   \<and> selectedImage (ui (boot (localStorage busy_app) None)) = None
   \<and> \<not> isGenerating (ui (boot (localStorage busy_app) None))
   \<and> initial_apiKey (snd (handleApiKeyChange [] (busy_session, localStorage busy_app)))
        (Some ''build-key'') = ''build-key''"
proof -
  have "run Part_001 sample_events (boot empty_store None) = Some busy_app \<longrightarrow>
        ui (boot (localStorage busy_app) None) =
          (initial_session empty_store None)
            \<lparr>apiKey := (if apiKey (ui busy_app) = [] then or_else None []
                        else apiKey (ui busy_app))\<rparr>"
    using credential_round_trip
      [where rv = Part_001 and es = sample_events and ls = empty_store and a = busy_app
         and s = busy_session and env = None and newKey = "[]"]
    by blast
  then have 1: "ui (boot (localStorage busy_app) None) =
          (initial_session empty_store None)\<lparr>apiKey := ''AIza-key''\<rparr>"
    using sample_run by (simp add: busy_app_def busy_session_def sample_session_def)
  have "initial_apiKey (snd (handleApiKeyChange [] (busy_session, localStorage busy_app)))
        (Some ''build-key'') = (if ([]::string) = [] then or_else (Some ''build-key'') [] else [])"
    using credential_round_trip
      [where rv = Part_001 and es = sample_events and ls = "localStorage busy_app"
         and a = busy_app and s = busy_session and env = "Some ''build-key''"
         and newKey = "[]"]
    by blast
  then have 2: "initial_apiKey (snd (handleApiKeyChange [] (busy_session, localStorage busy_app)))
        (Some ''build-key'') = ''build-key''"
    by (simp add: or_else_def)
  show ?thesis using 1 2 sample_run
    by (simp add: initial_session_def) (simp add: busy_app_def storage_key_def)
qed

text \<open>
  C10. With no source image (null, or the empty string), \<^verbatim>\<open>handleGenerate\<close> issues no
  request and returns the session as it was, whatever the credential and the service.
\<close>

theorem generate_without_image_is_noop:
  "\<not> truthy (selectedImage s) \<Longrightarrow>
     handleGenerate_start rv s = (s, None) \<and> handleGenerate rv api s = s"
  by (simp add: start_no_image handleGenerate_def)

text \<open>
  The page as it loads has no image and no credential: no message appears.
\<close>

theorem generate_without_image_is_noop_witness:
  "\<not> truthy (selectedImage (initial_session empty_store None))
   \<and> apiKey (initial_session empty_store None) = []
   \<and> handleGenerate_start Part_001 (initial_session empty_store None)
       = (initial_session empty_store None, None)
   \<and> handleGenerate Part_001 (service (Returned image_response)) (initial_session empty_store None)
       = initial_session empty_store None
   \<and> error (handleGenerate Part_001 (service (Returned image_response))
        (initial_session empty_store None)) = None"
proof -
  have g: "\<not> truthy (selectedImage (initial_session empty_store None))"
    by (simp add: fresh_session truthy_def)
  show ?thesis
    using g generate_without_image_is_noop
      [of "initial_session empty_store None" Part_001 "service (Returned image_response)"]
    by (simp add: fresh_session)
qed

end
